theory Spec2Isabelle
  imports Complex_Main
begin

section \<open>Leaflet.SmoothWheelZoom: the wheel handler of src/SmoothWheelZoom.js\<close>

text \<open>
  The handler accumulates wheel input into a goal zoom (\<open>_onWheelScroll\<close>,
  \<open>_onWheelStart\<close>, \<open>_onWheeling\<close>, \<open>_onWheelEnd\<close>) and eases the map towards it
  in a self-rescheduling animation-frame callback (\<open>_updateWheelZoom\<close>).

  Numbers. A JavaScript number is modelled as a real or \<open>NaN\<close>: the arithmetic is exact
  and the rounding of IEEE doubles, as well as the infinities, are outside the model.
  \<open>NaN\<close> is kept because a missing event field produces it and it then flows through
  the handler's state.

  The Leaflet map (\<open>this._map\<close>), \<open>L.DomEvent\<close>, \<open>L.Point\<close> and the browser are not
  part of the repository. The map is an abstract value of type \<open>'v\<close>, a geographic
  point an abstract value of type \<open>'ll\<close>, and every function of the host that the
  handler calls is a field of the record \<open>host\<close>, passed as a parameter.
\<close>

subsection \<open>JavaScript numbers\<close>

datatype jsnum = NaN | Num real

fun js_add :: "jsnum \<Rightarrow> jsnum \<Rightarrow> jsnum" where
  "js_add (Num a) (Num b) = Num (a + b)"
| "js_add _ _ = NaN"

fun js_sub :: "jsnum \<Rightarrow> jsnum \<Rightarrow> jsnum" where
  "js_sub (Num a) (Num b) = Num (a - b)"
| "js_sub _ _ = NaN"

fun js_mul :: "jsnum \<Rightarrow> jsnum \<Rightarrow> jsnum" where
  "js_mul (Num a) (Num b) = Num (a * b)"
| "js_mul _ _ = NaN"

text \<open>Every divisor in the source is a non-zero constant; a zero divisor (an infinity
  or \<open>NaN\<close> in JavaScript) is outside the model and mapped to \<open>NaN\<close>.\<close>

fun js_div :: "jsnum \<Rightarrow> jsnum \<Rightarrow> jsnum" where
  "js_div (Num a) (Num b) = (if b = 0 then NaN else Num (a / b))"
| "js_div _ _ = NaN"

fun js_neg :: "jsnum \<Rightarrow> jsnum" where
  "js_neg (Num a) = Num (- a)"
| "js_neg NaN = NaN"

fun js_abs :: "jsnum \<Rightarrow> jsnum" where
  "js_abs (Num a) = Num \<bar>a\<bar>"
| "js_abs NaN = NaN"

fun js_floor :: "jsnum \<Rightarrow> jsnum" where
  "js_floor (Num a) = Num (of_int \<lfloor>a\<rfloor>)"
| "js_floor NaN = NaN"

text \<open>Comparisons with \<open>NaN\<close> are false; \<open>===\<close> is false and \<open>!==\<close> true on \<open>NaN\<close>.\<close>

fun js_lt :: "jsnum \<Rightarrow> jsnum \<Rightarrow> bool" where
  "js_lt (Num a) (Num b) = (a < b)"
| "js_lt _ _ = False"

definition js_gt :: "jsnum \<Rightarrow> jsnum \<Rightarrow> bool" where
  "js_gt a b = js_lt b a"

fun js_seq :: "jsnum \<Rightarrow> jsnum \<Rightarrow> bool" where
  "js_seq (Num a) (Num b) = (a = b)"
| "js_seq _ _ = False"

definition js_sne :: "jsnum \<Rightarrow> jsnum \<Rightarrow> bool" where
  "js_sne a b = (\<not> js_seq a b)"

text \<open>A field of an event object that may be absent: \<open>None\<close> is \<open>undefined\<close>, and
  \<open>undefined\<close> in arithmetic is \<open>NaN\<close>.\<close>

fun to_number :: "jsnum option \<Rightarrow> jsnum" where
  "to_number None = NaN"
| "to_number (Some v) = v"

subsection \<open>Points, events, the host\<close>

record point =
  px :: real
  py :: real

definition subtract :: "point \<Rightarrow> point \<Rightarrow> point" where
  "subtract p q = \<lparr>px = px p - px q, py = py p - py q\<rparr>"

definition divideBy :: "point \<Rightarrow> real \<Rightarrow> point" where
  "divideBy p n = \<lparr>px = px p / n, py = py p / n\<rparr>"

record wheel_event =
  deltaY :: "jsnum option"
  deltaMode :: "jsnum option"
  clientX :: real
  clientY :: real

text \<open>The option \<open>smoothWheelZoom: true | false | 'center'\<close>.\<close>

datatype swz_option = SwzTrue | SwzFalse | SwzCenter

record ('v, 'll) host =
  DomEvent_getWheelDelta :: "(wheel_event \<Rightarrow> jsnum) option"
  map_mouseEventToContainerPoint :: "('v \<Rightarrow> wheel_event \<Rightarrow> point) option"
  platform :: string
  rectLeft :: "'v \<Rightarrow> real"
  rectTop :: "'v \<Rightarrow> real"
  clientLeft :: "'v \<Rightarrow> real"
  clientTop :: "'v \<Rightarrow> real"
  getZoom :: "'v \<Rightarrow> jsnum"
  getCenter :: "'v \<Rightarrow> 'll"
  getMinZoom :: "'v \<Rightarrow> jsnum"
  getMaxZoom :: "'v \<Rightarrow> jsnum"
  getSize :: "'v \<Rightarrow> point"
  opt_smoothWheelZoom :: "'v \<Rightarrow> swz_option"
  opt_smoothSensitivity :: "'v \<Rightarrow> jsnum"
  limitZoom :: "'v \<Rightarrow> jsnum \<Rightarrow> jsnum"
  containerPointToLatLng :: "'v \<Rightarrow> point \<Rightarrow> 'll"
  project :: "'v \<Rightarrow> 'll \<Rightarrow> jsnum \<Rightarrow> point"
  unproject :: "'v \<Rightarrow> point \<Rightarrow> jsnum \<Rightarrow> 'll"
  equals :: "'ll \<Rightarrow> 'll \<Rightarrow> bool"
  map_stop :: "'v \<Rightarrow> 'v"
  has_panAnim :: "'v \<Rightarrow> bool"
  panAnim_stop :: "'v \<Rightarrow> 'v"
  moveStart :: "'v \<Rightarrow> 'v"
  move :: "'ll \<Rightarrow> jsnum \<Rightarrow> 'v \<Rightarrow> 'v"
  moveEnd :: "'v \<Rightarrow> 'v"

text \<open>The calls of the handler that write to the map, in the order they are made.\<close>

datatype 'll call =
  CallStop | CallPanAnimStop | CallMoveStart | CallMove 'll jsnum | CallMoveEnd

subsection \<open>The handler's fields and the scheduler\<close>

text \<open>The fields \<open>this._x\<close> of the handler. Every field read by \<open>_updateWheelZoom\<close> is
  written by \<open>_onWheelStart\<close> before the first frame is requested; \<open>_isWheeling\<close> is
  \<open>undefined\<close> (false) and the two handles are \<open>undefined\<close> (\<open>None\<close>) before the
  first gesture.\<close>

record 'll handler =
  isWheeling :: bool
  wheelMousePosition :: point
  centerPoint :: point
  startLatLng :: 'll
  wheelStartLatLng :: 'll
  startZoom :: jsnum
  moved :: bool
  zooming :: bool
  goalZoom :: jsnum
  prevCenter :: 'll
  prevZoom :: jsnum
  zoomAnimationId :: "nat option"
  timeoutId :: "nat option"
  zoom_field :: jsnum
  center_field :: 'll

text \<open>The handler, its map, and the browser's pending callbacks: the handles of the
  requested animation frames (each runs \<open>_updateWheelZoom\<close>) and of the pending
  timeouts (each runs \<open>_onWheelEnd\<close>), oldest first; whether the wheel listener is
  attached; and the trace of writes to the map.\<close>

record ('v, 'll) sys =
  hnd :: "'ll handler"
  view :: 'v
  frames :: "nat list"
  timers :: "nat list"
  nextFrameId :: nat
  nextTimerId :: nat
  listening :: bool
  calls :: "'ll call list"

text \<open>\<open>this._zoomAnimationId = requestAnimationFrame(this._updateWheelZoom.bind(this))\<close>,
  the only form in which the handler requests a frame: a fresh handle joins the pending
  frames and is stored in \<open>_zoomAnimationId\<close>. Likewise
  \<open>this._timeoutId = setTimeout(this._onWheelEnd.bind(this), 200)\<close>. The delay itself
  is not modelled: the timer expires when the browser delivers it.\<close>

definition requestAnimationFrame :: "('v, 'll) sys \<Rightarrow> ('v, 'll) sys" where
  "requestAnimationFrame s =
     s\<lparr>hnd := (hnd s)\<lparr>zoomAnimationId := Some (nextFrameId s)\<rparr>,
       frames := frames s @ [nextFrameId s],
       nextFrameId := Suc (nextFrameId s)\<rparr>"

definition cancelAnimationFrame :: "nat option \<Rightarrow> ('v, 'll) sys \<Rightarrow> ('v, 'll) sys" where
  "cancelAnimationFrame i s =
     (case i of None \<Rightarrow> s | Some k \<Rightarrow> s\<lparr>frames := removeAll k (frames s)\<rparr>)"

definition setTimeout_onWheelEnd :: "('v, 'll) sys \<Rightarrow> ('v, 'll) sys" where
  "setTimeout_onWheelEnd s =
     s\<lparr>hnd := (hnd s)\<lparr>timeoutId := Some (nextTimerId s)\<rparr>,
       timers := timers s @ [nextTimerId s],
       nextTimerId := Suc (nextTimerId s)\<rparr>"

definition clearTimeout :: "nat option \<Rightarrow> ('v, 'll) sys \<Rightarrow> ('v, 'll) sys" where
  "clearTimeout i s =
     (case i of None \<Rightarrow> s | Some k \<Rightarrow> s\<lparr>timers := removeAll k (timers s)\<rparr>)"

subsection \<open>Hooks\<close>

text \<open>\<open>addHooks\<close> and \<open>removeHooks\<close> attach and detach the wheel listener
  (\<open>L.DomEvent.on\<close>, \<open>L.DomEvent.off\<close>) and do nothing else. The host's
  \<open>L.Handler.enable\<close> and \<open>L.Handler.disable\<close> call them.\<close>

definition addHooks :: "('v, 'll) sys \<Rightarrow> ('v, 'll) sys" where
  "addHooks s = s\<lparr>listening := True\<rparr>"

definition removeHooks :: "('v, 'll) sys \<Rightarrow> ('v, 'll) sys" where
  "removeHooks s = s\<lparr>listening := False\<rparr>"

subsection \<open>Wheel input\<close>

text \<open>\<open>L.DomEvent.preventDefault\<close> and \<open>stopPropagation\<close> at the end of
  \<open>_onWheeling\<close> act on the event only and are left out.\<close>

definition getWheelDelta :: "('v, 'll) host \<Rightarrow> wheel_event \<Rightarrow> jsnum" where
  "getWheelDelta H e =
     (case DomEvent_getWheelDelta H of
        Some f \<Rightarrow> f e
      | None \<Rightarrow>
          (let factor = (if take 3 (platform H) = ''Mac'' then 3 else 1 :: real) in
           if deltaMode e = Some (Num 0) then
             js_div (js_neg (to_number (deltaY e))) (Num (40 * factor))
           else if deltaMode e = Some (Num 1) then
             js_mul (js_neg (to_number (deltaY e))) (Num (4 / factor))
           else js_neg (to_number (deltaY e))))"

definition mouseEventToContainerPoint :: "('v, 'll) host \<Rightarrow> 'v \<Rightarrow> wheel_event \<Rightarrow> point" where
  "mouseEventToContainerPoint H m e =
     (case map_mouseEventToContainerPoint H of
        Some f \<Rightarrow> f m e
      | None \<Rightarrow> \<lparr>px = clientX e - rectLeft H m - clientLeft H m,
                 py = clientY e - rectTop H m - clientTop H m\<rparr>)"

definition onWheelStart :: "('v, 'll) host \<Rightarrow> wheel_event \<Rightarrow> ('v, 'll) sys \<Rightarrow> ('v, 'll) sys" where
  "onWheelStart H e s =
     (let m = view s;
          pos = mouseEventToContainerPoint H m e;
          cp = divideBy (getSize H m) 2;
          h1 = (hnd s)\<lparr>isWheeling := True,
                        wheelMousePosition := pos,
                        centerPoint := cp,
                        startLatLng := containerPointToLatLng H m cp,
                        wheelStartLatLng := containerPointToLatLng H m pos,
                        startZoom := getZoom H m,
                        moved := False,
                        zooming := True\<rparr>;
          m1 = map_stop H m;
          c1 = calls s @ [CallStop];
          m2 = (if has_panAnim H m1 then panAnim_stop H m1 else m1);
          c2 = (if has_panAnim H m1 then c1 @ [CallPanAnimStop] else c1);
          h2 = h1\<lparr>goalZoom := getZoom H m2,
                   prevCenter := getCenter H m2,
                   prevZoom := getZoom H m2\<rparr>
      in requestAnimationFrame (s\<lparr>hnd := h2, view := m2, calls := c2\<rparr>))"

definition onWheeling :: "('v, 'll) host \<Rightarrow> wheel_event \<Rightarrow> ('v, 'll) sys \<Rightarrow> ('v, 'll) sys" where
  "onWheeling H e s =
     (let m = view s;
          h = hnd s;
          g1 = js_add (goalZoom h)
                 (js_mul (js_mul (getWheelDelta H e) (Num 0.003)) (opt_smoothSensitivity H m));
          g2 = (if js_lt g1 (getMinZoom H m) \<or> js_gt g1 (getMaxZoom H m)
                then limitZoom H m g1 else g1);
          h1 = h\<lparr>goalZoom := g2,
                  wheelMousePosition := mouseEventToContainerPoint H m e\<rparr>
      in setTimeout_onWheelEnd (clearTimeout (timeoutId h1) (s\<lparr>hnd := h1\<rparr>)))"

definition onWheelScroll :: "('v, 'll) host \<Rightarrow> wheel_event \<Rightarrow> ('v, 'll) sys \<Rightarrow> ('v, 'll) sys" where
  "onWheelScroll H e s =
     onWheeling H e (if \<not> isWheeling (hnd s) then onWheelStart H e s else s)"

definition onWheelEnd :: "('v, 'll) sys \<Rightarrow> ('v, 'll) sys" where
  "onWheelEnd s = s\<lparr>hnd := (hnd s)\<lparr>isWheeling := False\<rparr>\<rparr>"

subsection \<open>The animation frame\<close>

text \<open>The zoom of the next frame: lines 187 and 188.\<close>

definition nextZoom :: "jsnum \<Rightarrow> jsnum \<Rightarrow> jsnum" where
  "nextZoom cur goal =
     js_div (js_floor (js_mul (js_add cur (js_mul (js_sub goal cur) (Num 0.3))) (Num 100)))
            (Num 100)"

definition interfered :: "('v, 'll) host \<Rightarrow> ('v, 'll) sys \<Rightarrow> bool" where
  "interfered H s =
     (\<not> equals H (getCenter H (view s)) (prevCenter (hnd s))
      \<or> js_sne (getZoom H (view s)) (prevZoom (hnd s)))"

definition converged :: "('v, 'll) host \<Rightarrow> ('v, 'll) sys \<Rightarrow> bool" where
  "converged H s =
     (js_lt (js_abs (js_sub (goalZoom (hnd s)) (getZoom H (view s)))) (Num 0.005)
      \<and> \<not> isWheeling (hnd s))"

definition updateWheelZoom :: "('v, 'll) host \<Rightarrow> ('v, 'll) sys \<Rightarrow> ('v, 'll) sys" where
  "updateWheelZoom H s =
     (let m = view s; h = hnd s in
      if interfered H s then cancelAnimationFrame (zoomAnimationId h) s
      else if converged H s then
        (let s1 = cancelAnimationFrame (zoomAnimationId h) s in
         if moved h
         then s1\<lparr>hnd := (hnd s1)\<lparr>moved := False\<rparr>,
                 view := moveEnd H m,
                 calls := calls s1 @ [CallMoveEnd]\<rparr>
         else s1)
      else
        (let z = nextZoom (getZoom H m) (goalZoom h);
             h1 = h\<lparr>zoom_field := z\<rparr>;
             delta = subtract (wheelMousePosition h) (centerPoint h) in
         if px delta = 0 \<and> py delta = 0
         then requestAnimationFrame (s\<lparr>hnd := h1\<rparr>)
         else
           (let c = (if opt_smoothWheelZoom H m = SwzCenter then startLatLng h
                     else unproject H m (subtract (project H m (wheelStartLatLng h) z) delta) z);
                h2 = h1\<lparr>center_field := c\<rparr>;
                m1 = (if \<not> moved h then moveStart H m else m);
                c1 = (if \<not> moved h then calls s @ [CallMoveStart] else calls s);
                h3 = h2\<lparr>moved := True\<rparr>;
                m2 = move H c z m1;
                h4 = h3\<lparr>prevCenter := getCenter H m2, prevZoom := getZoom H m2\<rparr>
            in requestAnimationFrame
                 (s\<lparr>hnd := h4, view := m2, calls := c1 @ [CallMove c z]\<rparr>))))"

subsection \<open>The browser runs a pending callback\<close>

text \<open>The oldest requested frame is taken off the list and \<open>_updateWheelZoom\<close> runs;
  with no frame pending nothing runs. Likewise for the debounce timer.\<close>

definition runFrame :: "('v, 'll) host \<Rightarrow> ('v, 'll) sys \<Rightarrow> ('v, 'll) sys" where
  "runFrame H s =
     (case frames s of [] \<Rightarrow> s | i # rest \<Rightarrow> updateWheelZoom H (s\<lparr>frames := rest\<rparr>))"

definition runTimer :: "('v, 'll) sys \<Rightarrow> ('v, 'll) sys" where
  "runTimer s =
     (case timers s of [] \<Rightarrow> s | i # rest \<Rightarrow> onWheelEnd (s\<lparr>timers := rest\<rparr>))"

fun runFrames :: "nat \<Rightarrow> ('v, 'll) host \<Rightarrow> ('v, 'll) sys \<Rightarrow> ('v, 'll) sys" where
  "runFrames 0 H s = s"
| "runFrames (Suc n) H s = runFrames n H (runFrame H s)"

fun wheelEvents :: "('v, 'll) host \<Rightarrow> wheel_event list \<Rightarrow> ('v, 'll) sys \<Rightarrow> ('v, 'll) sys" where
  "wheelEvents H [] s = s"
| "wheelEvents H (e # es) s = wheelEvents H es (onWheelScroll H e s)"

subsection \<open>Sequences of callbacks\<close>

text \<open>What the browser delivers to the handler: a wheel event (only while the
  listener is attached), an animation frame, or the expiry of the debounce timer.\<close>

datatype event = Wheel wheel_event | Frame | Timeout

fun deliver :: "('v, 'll) host \<Rightarrow> event \<Rightarrow> ('v, 'll) sys \<Rightarrow> ('v, 'll) sys" where
  "deliver H (Wheel e) s = (if listening s then onWheelScroll H e s else s)"
| "deliver H Frame s = runFrame H s"
| "deliver H Timeout s = runTimer s"

fun deliverAll :: "('v, 'll) host \<Rightarrow> event list \<Rightarrow> ('v, 'll) sys \<Rightarrow> ('v, 'll) sys" where
  "deliverAll H [] s = s"
| "deliverAll H (x # xs) s = deliverAll H xs (deliver H x s)"

text \<open>The callbacks stay within the gesture that is under way: no wheel event arrives
  after the debounce timer has cleared \<open>_isWheeling\<close> (such an event would start a
  new gesture through \<open>_onWheelStart\<close>).\<close>

fun continues_gesture :: "event \<Rightarrow> ('v, 'll) sys \<Rightarrow> bool" where
  "continues_gesture (Wheel e) s = isWheeling (hnd s)"
| "continues_gesture Frame s = True"
| "continues_gesture Timeout s = True"

fun same_gesture :: "('v, 'll) host \<Rightarrow> event list \<Rightarrow> ('v, 'll) sys \<Rightarrow> bool" where
  "same_gesture H [] s = True"
| "same_gesture H (x # xs) s = (continues_gesture x s \<and> same_gesture H xs (deliver H x s))"

text \<open>A zoom lies within the map's zoom range.\<close>

fun js_le :: "jsnum \<Rightarrow> jsnum \<Rightarrow> bool" where
  "js_le (Num a) (Num b) = (a \<le> b)"
| "js_le _ _ = False"

definition within_limits :: "('v, 'll) host \<Rightarrow> 'v \<Rightarrow> jsnum \<Rightarrow> bool" where
  "within_limits H m g = (js_le (getMinZoom H m) g \<and> js_le g (getMaxZoom H m))"

subsection \<open>The spec's wording of the easing step\<close>




subsection \<open>A concrete host for evaluation\<close>

text \<open>A small stand-in for the map, used to run the handler on concrete inputs: the
  map is its zoom and its centre, a geographic point is a pair of reals, the pixel
  position of a point is its coordinates times the zoom, the zoom range is \<open>[0, 18]\<close>
  with plain clamping, the container is 800 by 600 pixels at the origin of the page,
  \<open>_move\<close> stores the centre and the zoom it is given, and the other calls leave the
  zoom and the centre alone. \<open>L.DomEvent.getWheelDelta\<close> and
  \<open>map.mouseEventToContainerPoint\<close> are absent, so the handler's own code runs.\<close>

record flat_view =
  fv_zoom :: jsnum
  fv_center :: point

fun flat_scale :: "point \<Rightarrow> jsnum \<Rightarrow> point" where
  "flat_scale p (Num z) = \<lparr>px = px p * z, py = py p * z\<rparr>"
| "flat_scale p NaN = \<lparr>px = 0, py = 0\<rparr>"

fun flat_unscale :: "point \<Rightarrow> jsnum \<Rightarrow> point" where
  "flat_unscale p (Num z) = \<lparr>px = px p / z, py = py p / z\<rparr>"
| "flat_unscale p NaN = \<lparr>px = 0, py = 0\<rparr>"

fun flat_limitZoom :: "jsnum \<Rightarrow> jsnum" where
  "flat_limitZoom (Num z) = Num (max 0 (min 18 z))"
| "flat_limitZoom NaN = NaN"

definition flat_host :: "(flat_view, point) host" where
  "flat_host =
     \<lparr>DomEvent_getWheelDelta = None,
      map_mouseEventToContainerPoint = None,
      platform = ''Linux x86_64'',
      rectLeft = (\<lambda>m. 0), rectTop = (\<lambda>m. 0), clientLeft = (\<lambda>m. 0), clientTop = (\<lambda>m. 0),
      getZoom = fv_zoom,
      getCenter = fv_center,
      getMinZoom = (\<lambda>m. Num 0),
      getMaxZoom = (\<lambda>m. Num 18),
      getSize = (\<lambda>m. \<lparr>px = 800, py = 600\<rparr>),
      opt_smoothWheelZoom = (\<lambda>m. SwzTrue),
      opt_smoothSensitivity = (\<lambda>m. Num 1),
      limitZoom = (\<lambda>m. flat_limitZoom),
      containerPointToLatLng =
        (\<lambda>m p. \<lparr>px = px (fv_center m) + (px p - 400), py = py (fv_center m) + (py p - 300)\<rparr>),
      project = (\<lambda>m. flat_scale),
      unproject = (\<lambda>m. flat_unscale),
      equals = (\<lambda>a b. a = b),
      map_stop = (\<lambda>m. m),
      has_panAnim = (\<lambda>m. False),
      panAnim_stop = (\<lambda>m. m),
      moveStart = (\<lambda>m. m),
      move = (\<lambda>c z m. m\<lparr>fv_center := c, fv_zoom := z\<rparr>),
      moveEnd = (\<lambda>m. m)\<rparr>"

text \<open>The same host with the option \<open>smoothWheelZoom: 'center'\<close>.\<close>

definition flat_host_center :: "(flat_view, point) host" where
  "flat_host_center = flat_host\<lparr>opt_smoothWheelZoom := (\<lambda>m. SwzCenter)\<rparr>"

text \<open>An enabled handler that has seen no event, on a map at the given zoom. The
  fields that \<open>_onWheelStart\<close> writes first hold placeholders.\<close>

definition idle_handler :: "point handler" where
  "idle_handler =
     \<lparr>isWheeling = False,
      wheelMousePosition = \<lparr>px = 0, py = 0\<rparr>,
      centerPoint = \<lparr>px = 0, py = 0\<rparr>,
      startLatLng = \<lparr>px = 0, py = 0\<rparr>,
      wheelStartLatLng = \<lparr>px = 0, py = 0\<rparr>,
      startZoom = NaN,
      moved = False,
      zooming = False,
      goalZoom = NaN,
      prevCenter = \<lparr>px = 0, py = 0\<rparr>,
      prevZoom = NaN,
      zoomAnimationId = None,
      timeoutId = None,
      zoom_field = NaN,
      center_field = \<lparr>px = 0, py = 0\<rparr>\<rparr>"

definition idle_sys :: "real \<Rightarrow> (flat_view, point) sys" where
  "idle_sys z =
     \<lparr>hnd = idle_handler,
      view = \<lparr>fv_zoom = Num z, fv_center = \<lparr>px = 0, py = 0\<rparr>\<rparr>,
      frames = [], timers = [], nextFrameId = 0, nextTimerId = 0,
      listening = True, calls = []\<rparr>"

text \<open>Wheel events: one notch up or down in pixel mode (\<open>deltaMode 0\<close>,
  \<open>deltaY\<close> of 40 pixels), at a given position; and an event object without delta
  fields.\<close>

definition notch_up :: "real \<Rightarrow> real \<Rightarrow> wheel_event" where
  "notch_up x y = \<lparr>deltaY = Some (Num (- 40)), deltaMode = Some (Num 0), clientX = x, clientY = y\<rparr>"

definition notch_down :: "real \<Rightarrow> real \<Rightarrow> wheel_event" where
  "notch_down x y = \<lparr>deltaY = Some (Num 40), deltaMode = Some (Num 0), clientX = x, clientY = y\<rparr>"

definition no_delta :: "real \<Rightarrow> real \<Rightarrow> wheel_event" where
  "no_delta x y = \<lparr>deltaY = None, deltaMode = None, clientX = x, clientY = y\<rparr>"

definition far_up :: wheel_event where
  "far_up = \<lparr>deltaY = Some (Num (- 400000)), deltaMode = Some (Num 1), clientX = 500, clientY = 300\<rparr>"

definition far_down :: wheel_event where
  "far_down = \<lparr>deltaY = Some (Num 400000), deltaMode = Some (Num 1), clientX = 500, clientY = 300\<rparr>"

text \<open>Another agent (a pan by the user, a programmatic \<open>setView\<close>) replaces the
  state of the map.\<close>

definition external_write :: "'v \<Rightarrow> ('v, 'll) sys \<Rightarrow> ('v, 'll) sys" where
  "external_write v s = s\<lparr>view := v\<rparr>"



text \<open>The state in which the easing step makes no progress: the gesture has ended,
  the map stands at zoom \<open>z\<close> untouched since the last commit, the goal is \<open>g\<close>, and
  a frame is pending.\<close>

definition stalled :: "('v, 'll) host \<Rightarrow> real \<Rightarrow> real \<Rightarrow> ('v, 'll) sys \<Rightarrow> bool" where
  "stalled H g z s =
     (\<not> isWheeling (hnd s) \<and> goalZoom (hnd s) = Num g \<and> getZoom H (view s) = Num z
      \<and> prevZoom (hnd s) = Num z \<and> equals H (getCenter H (view s)) (prevCenter (hnd s))
      \<and> frames s \<noteq> [])"

section \<open>Properties\<close>

subsection \<open>Field lemmas\<close>


lemma cancelAnimationFrame_fields:
  "view (cancelAnimationFrame i s) = view s"
  "calls (cancelAnimationFrame i s) = calls s"
  "timers (cancelAnimationFrame i s) = timers s"
  "listening (cancelAnimationFrame i s) = listening s"
  "hnd (cancelAnimationFrame i s) = hnd s"
  "length (frames (cancelAnimationFrame i s)) \<le> length (frames s)"
  by (auto simp add: cancelAnimationFrame_def length_removeAll_less_eq split: option.splits)

lemma onWheeling_fields:
  "view (onWheeling H e s) = view s"
  "calls (onWheeling H e s) = calls s"
  "frames (onWheeling H e s) = frames s"
  "listening (onWheeling H e s) = listening s"
  "isWheeling (hnd (onWheeling H e s)) = isWheeling (hnd s)"
  "startLatLng (hnd (onWheeling H e s)) = startLatLng (hnd s)"
  "wheelStartLatLng (hnd (onWheeling H e s)) = wheelStartLatLng (hnd s)"
  "centerPoint (hnd (onWheeling H e s)) = centerPoint (hnd s)"
  by (simp_all add: onWheeling_def Let_def setTimeout_onWheelEnd_def clearTimeout_def
      split: option.splits)

lemma onWheeling_goalZoom:
  "goalZoom (hnd (onWheeling H e s)) =
     (let g = js_add (goalZoom (hnd s))
                (js_mul (js_mul (getWheelDelta H e) (Num 0.003)) (opt_smoothSensitivity H (view s)))
      in if js_lt g (getMinZoom H (view s)) \<or> js_gt g (getMaxZoom H (view s))
         then limitZoom H (view s) g else g)"
  by (simp add: onWheeling_def Let_def setTimeout_onWheelEnd_def clearTimeout_def
      split: option.splits)

lemma onWheeling_in_range:
  assumes "goalZoom (hnd s) = Num g" "getWheelDelta H e = Num d"
    and "opt_smoothSensitivity H (view s) = Num k"
    and "getMinZoom H (view s) = Num lo" "getMaxZoom H (view s) = Num hi"
    and "lo \<le> g + d * k * 0.003" "g + d * k * 0.003 \<le> hi"
  shows "goalZoom (hnd (onWheeling H e s)) = Num (g + d * k * 0.003)"
  using assms by (simp add: onWheeling_goalZoom js_gt_def algebra_simps)




lemma flat_getWheelDelta_down: "getWheelDelta flat_host (notch_down x y) = Num (- 1)"
  by (simp add: getWheelDelta_def flat_host_def notch_down_def)

lemma flat_host_fields:
  "getZoom flat_host = fv_zoom"
  "getCenter flat_host = fv_center"
  "getMinZoom flat_host m = Num 0"
  "getMaxZoom flat_host m = Num 18"
  "opt_smoothSensitivity flat_host m = Num 1"
  "opt_smoothWheelZoom flat_host m = SwzTrue"
  "getSize flat_host m = \<lparr>px = 800, py = 600\<rparr>"
  "equals flat_host a b = (a = b)"
  "map_stop flat_host m = m"
  "has_panAnim flat_host m = False"
  "moveStart flat_host m = m"
  "moveEnd flat_host m = m"
  "move flat_host c z m = m\<lparr>fv_center := c, fv_zoom := z\<rparr>"
  "limitZoom flat_host m = flat_limitZoom"
  "project flat_host m = flat_scale"
  "unproject flat_host m = flat_unscale"
  "DomEvent_getWheelDelta flat_host = None"
  "map_mouseEventToContainerPoint flat_host = None"
  "platform flat_host = ''Linux x86_64''"
  "rectLeft flat_host m = 0" "rectTop flat_host m = 0"
  "clientLeft flat_host m = 0" "clientTop flat_host m = 0"
  "containerPointToLatLng flat_host m p =
     \<lparr>px = px (fv_center m) + (px p - 400), py = py (fv_center m) + (py p - 300)\<rparr>"
  by (simp_all add: flat_host_def)


subsection \<open>Accumulation of the goal zoom\<close>





lemmas run_defs =
  onWheelScroll_def onWheelStart_def onWheeling_def onWheelEnd_def updateWheelZoom_def
  runFrame_def runTimer_def requestAnimationFrame_def cancelAnimationFrame_def
  setTimeout_onWheelEnd_def clearTimeout_def getWheelDelta_def mouseEventToContainerPoint_def
  nextZoom_def interfered_def converged_def subtract_def divideBy_def js_gt_def js_sne_def
  external_write_def Let_def

lemmas flat_defs =
  flat_host_fields idle_sys_def idle_handler_def notch_up_def notch_down_def no_delta_def
  far_up_def far_down_def

subsection \<open>Clamping of the goal zoom\<close>

lemma js_le_Num_iff: "js_le a b \<longleftrightarrow> (\<exists>x y. a = Num x \<and> b = Num y \<and> x \<le> y)"
  by (cases a; cases b) simp_all


lemma within_limits_iff:
  "within_limits H m g \<longleftrightarrow>
     (\<exists>lo z hi. getMinZoom H m = Num lo \<and> g = Num z \<and> getMaxZoom H m = Num hi \<and> lo \<le> z \<and> z \<le> hi)"
  by (auto simp add: within_limits_def js_le_Num_iff)






subsection \<open>The frame callback, branch by branch\<close>

lemma interfered_cong:
  "hnd s' = hnd s \<Longrightarrow> view s' = view s \<Longrightarrow> interfered H s' = interfered H s"
  by (simp add: interfered_def)

lemma converged_cong:
  "goalZoom (hnd s') = goalZoom (hnd s) \<Longrightarrow> isWheeling (hnd s') = isWheeling (hnd s) \<Longrightarrow>
   view s' = view s \<Longrightarrow> converged H s' = converged H s"
  by (simp add: converged_def)

lemma differs_interfered:
  assumes "\<not> equals H (getCenter H (view s)) (prevCenter (hnd s))
           \<or> getZoom H (view s) \<noteq> prevZoom (hnd s)"
  shows "interfered H s"
proof -
  have "js_seq a b \<Longrightarrow> a = b" for a b by (cases a; cases b) simp_all
  then show ?thesis using assms by (auto simp add: interfered_def js_sne_def)
qed

lemma updateWheelZoom_interfered:
  "interfered H s \<Longrightarrow> updateWheelZoom H s = cancelAnimationFrame (zoomAnimationId (hnd s)) s"
  by (simp add: updateWheelZoom_def Let_def)

lemma updateWheelZoom_centered:
  assumes "\<not> interfered H s" "\<not> converged H s"
    and "px (wheelMousePosition (hnd s)) = px (centerPoint (hnd s))"
    and "py (wheelMousePosition (hnd s)) = py (centerPoint (hnd s))"
  shows "updateWheelZoom H s =
           requestAnimationFrame
             (s\<lparr>hnd := (hnd s)\<lparr>zoom_field := nextZoom (getZoom H (view s)) (goalZoom (hnd s))\<rparr>\<rparr>)"
  using assms by (simp add: updateWheelZoom_def Let_def subtract_def)

lemma updateWheelZoom_commit:
  assumes "\<not> interfered H s" "\<not> converged H s"
    and "px (wheelMousePosition (hnd s)) \<noteq> px (centerPoint (hnd s))
         \<or> py (wheelMousePosition (hnd s)) \<noteq> py (centerPoint (hnd s))"
  shows "updateWheelZoom H s =
     (let m = view s; h = hnd s;
          z = nextZoom (getZoom H m) (goalZoom h);
          delta = subtract (wheelMousePosition h) (centerPoint h);
          c = (if opt_smoothWheelZoom H m = SwzCenter then startLatLng h
               else unproject H m (subtract (project H m (wheelStartLatLng h) z) delta) z);
          m2 = move H c z (if moved h then m else moveStart H m)
      in requestAnimationFrame
           (s\<lparr>hnd := h\<lparr>zoom_field := z, center_field := c, moved := True,
                        prevCenter := getCenter H m2, prevZoom := getZoom H m2\<rparr>,
              view := m2,
              calls := calls s @ (if moved h then [] else [CallMoveStart]) @ [CallMove c z]\<rparr>))"
  using assms by (auto simp add: updateWheelZoom_def Let_def subtract_def)

lemma runFrame_Cons:
  "frames s = i # rest \<Longrightarrow> runFrame H s = updateWheelZoom H (s\<lparr>frames := rest\<rparr>)"
  by (simp add: runFrame_def)

lemma runFrame_Nil: "frames s = [] \<Longrightarrow> runFrame H s = s"
  by (simp add: runFrame_def)

lemma runFrame_interfered:
  assumes "interfered H s"
  shows "hnd (runFrame H s) = hnd s \<and> view (runFrame H s) = view s
         \<and> calls (runFrame H s) = calls s
         \<and> length (frames (runFrame H s)) \<le> length (frames s) - 1"
proof (cases "frames s")
  case Nil
  then show ?thesis by (simp add: runFrame_Nil)
next
  case (Cons i rest)
  let ?s = "s\<lparr>frames := rest\<rparr>"
  have i: "interfered H ?s" using assms by (simp add: interfered_def)
  have "length (frames (cancelAnimationFrame (zoomAnimationId (hnd ?s)) ?s)) \<le> length rest"
    using cancelAnimationFrame_fields(6)[of "zoomAnimationId (hnd ?s)" ?s] by simp
  then show ?thesis
    using Cons by (simp add: runFrame_Cons[OF Cons] updateWheelZoom_interfered[OF i]
        cancelAnimationFrame_fields)
qed

lemma runFrames_interfered:
  assumes "interfered H s"
  shows "hnd (runFrames n H s) = hnd s \<and> view (runFrames n H s) = view s
         \<and> calls (runFrames n H s) = calls s
         \<and> length (frames (runFrames n H s)) \<le> length (frames s) - n"
  using assms
proof (induction n arbitrary: s)
  case 0
  then show ?case by simp
next
  case (Suc n)
  note one = runFrame_interfered[OF Suc.prems]
  have i: "interfered H (runFrame H s)"
    using Suc.prems one by (simp add: interfered_def)
  from Suc.IH[OF i] one show ?case by (simp; arith)
qed

subsection \<open>External interference\<close>

text \<open>
  Claim C4. On a tick where the map's zoom or centre differs from the snapshots
  \<open>_prevZoom\<close>, \<open>_prevCenter\<close> taken at the last commit, the loop stops and makes no
  further commit. Stated for the frames that are pending when the difference arises:
  however many of them the browser runs, the map, the trace of writes to the map and
  the handler's fields stay as they are, and each run uses up a pending frame without
  requesting a new one. The centres are compared by the map's own \<open>equals\<close>.
\<close>

theorem interference_stops_loop:
  assumes "\<not> equals H (getCenter H (view s)) (prevCenter (hnd s))
           \<or> getZoom H (view s) \<noteq> prevZoom (hnd s)"
  shows "\<forall>n. view (runFrames n H s) = view s
            \<and> calls (runFrames n H s) = calls s
            \<and> hnd (runFrames n H s) = hnd s
            \<and> length (frames (runFrames n H s)) \<le> length (frames s) - n"
  using runFrames_interfered[OF differs_interfered[OF assms]] by simp

lemma flat_first_frame:
  "runFrame flat_host (wheelEvents flat_host [notch_up 500 300] (idle_sys 10)) =
     \<lparr>hnd = \<lparr>isWheeling = True, wheelMousePosition = \<lparr>px = 500, py = 300\<rparr>,
             centerPoint = \<lparr>px = 400, py = 300\<rparr>, startLatLng = \<lparr>px = 0, py = 0\<rparr>,
             wheelStartLatLng = \<lparr>px = 100, py = 0\<rparr>, startZoom = Num 10,
             moved = True, zooming = True, goalZoom = Num 10.003,
             prevCenter = \<lparr>px = 90, py = 0\<rparr>, prevZoom = Num 10,
             zoomAnimationId = Some 1, timeoutId = Some 0, zoom_field = Num 10,
             center_field = \<lparr>px = 90, py = 0\<rparr>\<rparr>,
      view = \<lparr>fv_zoom = Num 10, fv_center = \<lparr>px = 90, py = 0\<rparr>\<rparr>, frames = [1],
      timers = [0], nextFrameId = 2, nextTimerId = 1, listening = True,
      calls = [CallStop, CallMoveStart, CallMove \<lparr>px = 90, py = 0\<rparr> (Num 10)]\<rparr>"
  by (simp add: run_defs flat_defs)

theorem interference_stops_loop_witness:
  "view (runFrames 3 flat_host
          (external_write \<lparr>fv_zoom = Num 12, fv_center = \<lparr>px = 90, py = 0\<rparr>\<rparr>
             (runFrame flat_host (wheelEvents flat_host [notch_up 500 300] (idle_sys 10)))))
     = \<lparr>fv_zoom = Num 12, fv_center = \<lparr>px = 90, py = 0\<rparr>\<rparr>
   \<and> calls (runFrames 3 flat_host
          (external_write \<lparr>fv_zoom = Num 12, fv_center = \<lparr>px = 90, py = 0\<rparr>\<rparr>
             (runFrame flat_host (wheelEvents flat_host [notch_up 500 300] (idle_sys 10)))))
     = [CallStop, CallMoveStart, CallMove \<lparr>px = 90, py = 0\<rparr> (Num 10)]
   \<and> frames (runFrames 3 flat_host
          (external_write \<lparr>fv_zoom = Num 12, fv_center = \<lparr>px = 90, py = 0\<rparr>\<rparr>
             (runFrame flat_host (wheelEvents flat_host [notch_up 500 300] (idle_sys 10)))))
     = []"
proof -
  let ?s = "external_write \<lparr>fv_zoom = Num 12, fv_center = \<lparr>px = 90, py = 0\<rparr>\<rparr>
             (runFrame flat_host (wheelEvents flat_host [notch_up 500 300] (idle_sys 10)))"
  have differs: "\<not> equals flat_host (getCenter flat_host (view ?s)) (prevCenter (hnd ?s))
                 \<or> getZoom flat_host (view ?s) \<noteq> prevZoom (hnd ?s)"
    unfolding flat_first_frame by (simp add: external_write_def flat_host_fields)
  have "view (runFrames 3 flat_host ?s) = view ?s
        \<and> calls (runFrames 3 flat_host ?s) = calls ?s
        \<and> hnd (runFrames 3 flat_host ?s) = hnd ?s
        \<and> length (frames (runFrames 3 flat_host ?s)) \<le> length (frames ?s) - 3"
    using interference_stops_loop[OF differs] by blast
  then show ?thesis
    unfolding flat_first_frame by (simp add: external_write_def)
qed

subsection \<open>The cursor at the centre of the view\<close>

lemma runFrame_centered:
  assumes ni: "\<not> interfered H s" and nc: "\<not> converged H s"
    and cx: "px (wheelMousePosition (hnd s)) = px (centerPoint (hnd s))"
    and cy: "py (wheelMousePosition (hnd s)) = py (centerPoint (hnd s))"
    and fr: "frames s = i # rest"
  shows "runFrame H s =
           requestAnimationFrame
             (s\<lparr>frames := rest,
                hnd := (hnd s)\<lparr>zoom_field := nextZoom (getZoom H (view s)) (goalZoom (hnd s))\<rparr>\<rparr>)"
proof -
  let ?s = "s\<lparr>frames := rest\<rparr>"
  have "\<not> interfered H ?s" "\<not> converged H ?s" using ni nc by (simp_all add: interfered_def converged_def)
  from updateWheelZoom_centered[OF this] cx cy show ?thesis
    by (simp add: runFrame_Cons[OF fr])
qed

lemma runFrames_centered:
  assumes "\<not> interfered H s" "\<not> converged H s"
    and "px (wheelMousePosition (hnd s)) = px (centerPoint (hnd s))"
    and "py (wheelMousePosition (hnd s)) = py (centerPoint (hnd s))"
    and "frames s \<noteq> []"
  shows "view (runFrames n H s) = view s \<and> calls (runFrames n H s) = calls s
       \<and> goalZoom (hnd (runFrames n H s)) = goalZoom (hnd s)
       \<and> isWheeling (hnd (runFrames n H s)) = isWheeling (hnd s)
       \<and> frames (runFrames n H s) \<noteq> []
       \<and> \<not> converged H (runFrames n H s)"
  using assms
proof (induction n arbitrary: s)
  case 0
  then show ?case by simp
next
  case (Suc n)
  obtain i rest where fr: "frames s = i # rest" using Suc.prems(5) by (cases "frames s") auto
  note rf = runFrame_centered[OF Suc.prems(1-4) fr]
  let ?t = "runFrame H s"
  have f: "view ?t = view s" "calls ?t = calls s" "goalZoom (hnd ?t) = goalZoom (hnd s)"
    "isWheeling (hnd ?t) = isWheeling (hnd s)" "frames ?t \<noteq> []"
    "wheelMousePosition (hnd ?t) = wheelMousePosition (hnd s)"
    "centerPoint (hnd ?t) = centerPoint (hnd s)"
    "prevCenter (hnd ?t) = prevCenter (hnd s)" "prevZoom (hnd ?t) = prevZoom (hnd s)"
    unfolding rf by (simp_all add: requestAnimationFrame_def)
  have "\<not> interfered H ?t" "\<not> converged H ?t"
    using Suc.prems(1,2) f by (simp_all add: interfered_def converged_def)
  from Suc.IH[OF this] f Suc.prems(3,4) show ?case by simp
qed


lemma flat_centered_state:
  "runTimer (wheelEvents flat_host [notch_up 400 300, notch_up 400 300] (idle_sys 10)) =
     \<lparr>hnd = \<lparr>isWheeling = False, wheelMousePosition = \<lparr>px = 400, py = 300\<rparr>,
             centerPoint = \<lparr>px = 400, py = 300\<rparr>, startLatLng = \<lparr>px = 0, py = 0\<rparr>,
             wheelStartLatLng = \<lparr>px = 0, py = 0\<rparr>, startZoom = Num 10,
             moved = False, zooming = True, goalZoom = Num 10.006,
             prevCenter = \<lparr>px = 0, py = 0\<rparr>, prevZoom = Num 10,
             zoomAnimationId = Some 0, timeoutId = Some 1, zoom_field = NaN,
             center_field = \<lparr>px = 0, py = 0\<rparr>\<rparr>,
      view = \<lparr>fv_zoom = Num 10, fv_center = \<lparr>px = 0, py = 0\<rparr>\<rparr>, frames = [0],
      timers = [], nextFrameId = 1, nextTimerId = 2, listening = True,
      calls = [CallStop]\<rparr>"
  by (simp add: run_defs flat_defs)

text \<open>
  Claim C10. With the recorded cursor position exactly at the centre of the view, the
  frame callback never writes to the map. Hence, when the gesture has ended with the
  goal zoom at least 0.005 away from the map's zoom and nothing else touches the map,
  the stop condition never holds: after any number of frames the map and the trace of
  writes to it are unchanged, \<open>zoomDiff\<close> is unchanged, and a frame is still pending.
\<close>

theorem centered_cursor_never_converges:
  assumes cx: "px (wheelMousePosition (hnd s)) = px (centerPoint (hnd s))"
    and cy: "py (wheelMousePosition (hnd s)) = py (centerPoint (hnd s))"
    and ended: "\<not> isWheeling (hnd s)"
    and g: "goalZoom (hnd s) = Num g"
    and z: "getZoom H (view s) = Num z"
    and far: "0.005 \<le> \<bar>g - z\<bar>"
    and same: "equals H (getCenter H (view s)) (prevCenter (hnd s))" "prevZoom (hnd s) = Num z"
    and alive: "frames s \<noteq> []"
  shows "\<forall>n. view (runFrames n H s) = view s
           \<and> calls (runFrames n H s) = calls s
           \<and> js_sub (goalZoom (hnd (runFrames n H s))) (getZoom H (view (runFrames n H s))) = Num (g - z)
           \<and> \<not> converged H (runFrames n H s)
           \<and> frames (runFrames n H s) \<noteq> []"
proof
  fix n
  have ni: "\<not> interfered H s" using same z by (simp add: interfered_def js_sne_def)
  have nc: "\<not> converged H s" using g z far by (simp add: converged_def)
  from runFrames_centered[OF ni nc cx cy alive, of n] g z
  show "view (runFrames n H s) = view s
           \<and> calls (runFrames n H s) = calls s
           \<and> js_sub (goalZoom (hnd (runFrames n H s))) (getZoom H (view (runFrames n H s))) = Num (g - z)
           \<and> \<not> converged H (runFrames n H s)
           \<and> frames (runFrames n H s) \<noteq> []"
    by simp
qed

theorem centered_cursor_never_converges_witness:
  "view (runFrames 5 flat_host
           (runTimer (wheelEvents flat_host [notch_up 400 300, notch_up 400 300] (idle_sys 10))))
     = \<lparr>fv_zoom = Num 10, fv_center = \<lparr>px = 0, py = 0\<rparr>\<rparr>
   \<and> calls (runFrames 5 flat_host
           (runTimer (wheelEvents flat_host [notch_up 400 300, notch_up 400 300] (idle_sys 10))))
     = [CallStop]
   \<and> frames (runFrames 5 flat_host
           (runTimer (wheelEvents flat_host [notch_up 400 300, notch_up 400 300] (idle_sys 10))))
     \<noteq> []"
proof -
  let ?s = "runTimer (wheelEvents flat_host [notch_up 400 300, notch_up 400 300] (idle_sys 10))"
  have "\<forall>n. view (runFrames n flat_host ?s) = view ?s
           \<and> calls (runFrames n flat_host ?s) = calls ?s
           \<and> js_sub (goalZoom (hnd (runFrames n flat_host ?s)))
                (getZoom flat_host (view (runFrames n flat_host ?s))) = Num (10.006 - 10)
           \<and> \<not> converged flat_host (runFrames n flat_host ?s)
           \<and> frames (runFrames n flat_host ?s) \<noteq> []"
    apply (rule centered_cursor_never_converges)
    unfolding flat_centered_state by (simp_all add: flat_host_fields)
  then have "view (runFrames 5 flat_host ?s) = view ?s
           \<and> calls (runFrames 5 flat_host ?s) = calls ?s
           \<and> frames (runFrames 5 flat_host ?s) \<noteq> []"
    by blast
  then show ?thesis unfolding flat_centered_state by simp
qed




subsection \<open>The easing step\<close>

lemma nextZoom_Num:
  "nextZoom (Num z) (Num g) = Num (of_int \<lfloor>(z + (g - z) * 0.3) * 100\<rfloor> / 100)"
  by (simp add: nextZoom_def)







subsection \<open>The committed centre\<close>

lemma updateWheelZoom_anchors:
  "startLatLng (hnd (updateWheelZoom H s)) = startLatLng (hnd s)"
  "wheelStartLatLng (hnd (updateWheelZoom H s)) = wheelStartLatLng (hnd s)"
  "centerPoint (hnd (updateWheelZoom H s)) = centerPoint (hnd s)"
  by (simp_all add: updateWheelZoom_def Let_def requestAnimationFrame_def
      cancelAnimationFrame_def split: option.splits)

lemma deliver_anchors:
  assumes "continues_gesture x s"
  shows "startLatLng (hnd (deliver H x s)) = startLatLng (hnd s)
       \<and> wheelStartLatLng (hnd (deliver H x s)) = wheelStartLatLng (hnd s)
       \<and> centerPoint (hnd (deliver H x s)) = centerPoint (hnd s)"
proof (cases x)
  case (Wheel e)
  then show ?thesis using assms by (simp add: onWheelScroll_def onWheeling_fields)
next
  case Frame
  then show ?thesis
    by (cases "frames s") (simp_all add: runFrame_def updateWheelZoom_anchors)
next
  case Timeout
  then show ?thesis
    by (cases "timers s") (simp_all add: runTimer_def onWheelEnd_def)
qed

lemma deliverAll_anchors:
  assumes "same_gesture H xs s"
  shows "startLatLng (hnd (deliverAll H xs s)) = startLatLng (hnd s)
       \<and> wheelStartLatLng (hnd (deliverAll H xs s)) = wheelStartLatLng (hnd s)
       \<and> centerPoint (hnd (deliverAll H xs s)) = centerPoint (hnd s)"
  using assms
proof (induction xs arbitrary: s)
  case Nil
  then show ?case by simp
next
  case (Cons x xs)
  then have "continues_gesture x s" "same_gesture H xs (deliver H x s)" by simp_all
  from deliver_anchors[OF this(1), of H] Cons.IH[OF this(2)] show ?case by simp
qed

lemma gesture_start_anchors:
  assumes "\<not> isWheeling (hnd s0)" "listening s0"
  shows "startLatLng (hnd (deliver H (Wheel e) s0))
           = containerPointToLatLng H (view s0) (divideBy (getSize H (view s0)) 2)"
    and "wheelStartLatLng (hnd (deliver H (Wheel e) s0))
           = containerPointToLatLng H (view s0) (mouseEventToContainerPoint H (view s0) e)"
    and "centerPoint (hnd (deliver H (Wheel e) s0)) = divideBy (getSize H (view s0)) 2"
  using assms
  by (simp_all add: onWheelScroll_def onWheeling_fields onWheelStart_def Let_def
      requestAnimationFrame_def)

text \<open>
  Claim C3. A gesture starts with the wheel event \<open>e\<close> on an idle handler in state
  \<open>s0\<close>; \<open>cursorLatLng\<close> and \<open>centerLatLng\<close> are the geographic points under the
  cursor and under the centre of the view at that moment. After any callbacks of the
  same gesture, a frame that commits (it passes both checks and the pixel offset
  \<open>delta\<close> of the latest cursor position from the centre of the view is not zero)
  calls \<open>_move\<close> with the next zoom \<open>z\<close> and, in centre mode, with \<open>centerLatLng\<close>;
  otherwise with the unprojection at \<open>z\<close> of the projection of \<open>cursorLatLng\<close> at
  \<open>z\<close> minus \<open>delta\<close>.
\<close>

theorem committed_center:
  assumes start: "\<not> isWheeling (hnd s0)" "listening s0"
    and run: "same_gesture H evs (deliver H (Wheel e) s0)"
    and s: "s = deliverAll H evs (deliver H (Wheel e) s0)"
    and tick: "\<not> interfered H s" "\<not> converged H s" "frames s \<noteq> []"
    and off: "px (wheelMousePosition (hnd s)) \<noteq> px (centerPoint (hnd s))
              \<or> py (wheelMousePosition (hnd s)) \<noteq> py (centerPoint (hnd s))"
    and cur: "cursorLatLng = containerPointToLatLng H (view s0) (mouseEventToContainerPoint H (view s0) e)"
    and cen: "centerLatLng = containerPointToLatLng H (view s0) (divideBy (getSize H (view s0)) 2)"
    and del: "delta = subtract (wheelMousePosition (hnd s)) (divideBy (getSize H (view s0)) 2)"
    and z: "z = nextZoom (getZoom H (view s)) (goalZoom (hnd s))"
    and c: "c = (if opt_smoothWheelZoom H (view s) = SwzCenter then centerLatLng
                 else unproject H (view s) (subtract (project H (view s) cursorLatLng z) delta) z)"
  shows "calls (deliver H Frame s)
           = calls s @ (if moved (hnd s) then [] else [CallMoveStart]) @ [CallMove c z]
       \<and> view (deliver H Frame s)
           = move H c z (if moved (hnd s) then view s else moveStart H (view s))"
proof -
  obtain i rest where fr: "frames s = i # rest" using tick(3) by (cases "frames s") auto
  let ?s = "s\<lparr>frames := rest\<rparr>"
  have ni: "\<not> interfered H ?s" and nc: "\<not> converged H ?s"
    using tick by (simp_all add: interfered_def converged_def)
  have off': "px (wheelMousePosition (hnd ?s)) \<noteq> px (centerPoint (hnd ?s))
              \<or> py (wheelMousePosition (hnd ?s)) \<noteq> py (centerPoint (hnd ?s))"
    using off by simp
  have anchors: "startLatLng (hnd s) = centerLatLng" "wheelStartLatLng (hnd s) = cursorLatLng"
    "centerPoint (hnd s) = divideBy (getSize H (view s0)) 2"
    using deliverAll_anchors[OF run] gesture_start_anchors[OF start, of H e]
    by (simp_all add: s cur cen)
  show ?thesis
    unfolding deliver.simps runFrame_Cons[OF fr] updateWheelZoom_commit[OF ni nc off']
    by (simp add: Let_def requestAnimationFrame_def anchors c z del)
qed

lemma flat_host_center_fields:
  "getZoom flat_host_center = fv_zoom"
  "getCenter flat_host_center = fv_center"
  "getMinZoom flat_host_center m = Num 0"
  "getMaxZoom flat_host_center m = Num 18"
  "opt_smoothSensitivity flat_host_center m = Num 1"
  "opt_smoothWheelZoom flat_host_center m = SwzCenter"
  "getSize flat_host_center m = \<lparr>px = 800, py = 600\<rparr>"
  "equals flat_host_center a b = (a = b)"
  "map_stop flat_host_center m = m"
  "has_panAnim flat_host_center m = False"
  "moveStart flat_host_center m = m"
  "moveEnd flat_host_center m = m"
  "move flat_host_center c z m = m\<lparr>fv_center := c, fv_zoom := z\<rparr>"
  "limitZoom flat_host_center m = flat_limitZoom"
  "project flat_host_center m = flat_scale"
  "unproject flat_host_center m = flat_unscale"
  "DomEvent_getWheelDelta flat_host_center = None"
  "map_mouseEventToContainerPoint flat_host_center = None"
  "platform flat_host_center = ''Linux x86_64''"
  "rectLeft flat_host_center m = 0" "rectTop flat_host_center m = 0"
  "clientLeft flat_host_center m = 0" "clientTop flat_host_center m = 0"
  "containerPointToLatLng flat_host_center m p =
     \<lparr>px = px (fv_center m) + (px p - 400), py = py (fv_center m) + (py p - 300)\<rparr>"
  by (simp_all add: flat_host_center_def flat_host_def)

theorem committed_center_witness:
  "calls (deliver flat_host Frame
      (deliverAll flat_host [Frame, Wheel (notch_up 520 330), Timeout]
         (deliver flat_host (Wheel (notch_up 500 300)) (idle_sys 10))))
     = [CallStop, CallMoveStart, CallMove \<lparr>px = 90, py = 0\<rparr> (Num 10),
        CallMove \<lparr>px = 88, py = - 3\<rparr> (Num 10)]
   \<and> calls (deliver flat_host_center Frame
      (deliverAll flat_host_center [Frame, Wheel (notch_up 520 330), Timeout]
         (deliver flat_host_center (Wheel (notch_up 500 300)) (idle_sys 10))))
     = [CallStop, CallMoveStart, CallMove \<lparr>px = 0, py = 0\<rparr> (Num 10),
        CallMove \<lparr>px = 0, py = 0\<rparr> (Num 10)]"
proof -
  let ?evs = "[Frame, Wheel (notch_up 520 330), Timeout]"
  let ?g = "deliver flat_host (Wheel (notch_up 500 300)) (idle_sys 10)"
  let ?s = "deliverAll flat_host ?evs ?g"
  let ?gc = "deliver flat_host_center (Wheel (notch_up 500 300)) (idle_sys 10)"
  let ?sc = "deliverAll flat_host_center ?evs ?gc"
  have idle: "\<not> isWheeling (hnd (idle_sys 10))" "listening (idle_sys 10)"
    by (simp_all add: flat_defs)
  have run: "same_gesture flat_host ?evs ?g"
    by (simp add: run_defs flat_defs)
  have runc: "same_gesture flat_host_center ?evs ?gc"
    by (simp add: run_defs flat_host_center_fields idle_sys_def idle_handler_def notch_up_def)
  have st: "?s =
     \<lparr>hnd = \<lparr>isWheeling = False, wheelMousePosition = \<lparr>px = 520, py = 330\<rparr>,
             centerPoint = \<lparr>px = 400, py = 300\<rparr>, startLatLng = \<lparr>px = 0, py = 0\<rparr>,
             wheelStartLatLng = \<lparr>px = 100, py = 0\<rparr>, startZoom = Num 10,
             moved = True, zooming = True, goalZoom = Num 10.006,
             prevCenter = \<lparr>px = 90, py = 0\<rparr>, prevZoom = Num 10,
             zoomAnimationId = Some 1, timeoutId = Some 1, zoom_field = Num 10,
             center_field = \<lparr>px = 90, py = 0\<rparr>\<rparr>,
      view = \<lparr>fv_zoom = Num 10, fv_center = \<lparr>px = 90, py = 0\<rparr>\<rparr>, frames = [1],
      timers = [], nextFrameId = 2, nextTimerId = 2, listening = True,
      calls = [CallStop, CallMoveStart, CallMove \<lparr>px = 90, py = 0\<rparr> (Num 10)]\<rparr>"
    by (simp add: run_defs flat_defs)
  have stc: "?sc =
     \<lparr>hnd = \<lparr>isWheeling = False, wheelMousePosition = \<lparr>px = 520, py = 330\<rparr>,
             centerPoint = \<lparr>px = 400, py = 300\<rparr>, startLatLng = \<lparr>px = 0, py = 0\<rparr>,
             wheelStartLatLng = \<lparr>px = 100, py = 0\<rparr>, startZoom = Num 10,
             moved = True, zooming = True, goalZoom = Num 10.006,
             prevCenter = \<lparr>px = 0, py = 0\<rparr>, prevZoom = Num 10,
             zoomAnimationId = Some 1, timeoutId = Some 1, zoom_field = Num 10,
             center_field = \<lparr>px = 0, py = 0\<rparr>\<rparr>,
      view = \<lparr>fv_zoom = Num 10, fv_center = \<lparr>px = 0, py = 0\<rparr>\<rparr>, frames = [1],
      timers = [], nextFrameId = 2, nextTimerId = 2, listening = True,
      calls = [CallStop, CallMoveStart, CallMove \<lparr>px = 0, py = 0\<rparr> (Num 10)]\<rparr>"
    by (simp add: run_defs flat_host_center_fields idle_sys_def idle_handler_def notch_up_def)
  have tick: "\<not> interfered flat_host ?s" "\<not> converged flat_host ?s" "frames ?s \<noteq> []"
    unfolding st by (simp_all add: interfered_def converged_def flat_host_fields js_sne_def)
  have tickc: "\<not> interfered flat_host_center ?sc" "\<not> converged flat_host_center ?sc"
      "frames ?sc \<noteq> []"
    unfolding stc
    by (simp_all add: interfered_def converged_def flat_host_center_fields js_sne_def)
  have off: "px (wheelMousePosition (hnd ?s)) \<noteq> px (centerPoint (hnd ?s))
             \<or> py (wheelMousePosition (hnd ?s)) \<noteq> py (centerPoint (hnd ?s))"
    unfolding st by simp
  have offc: "px (wheelMousePosition (hnd ?sc)) \<noteq> px (centerPoint (hnd ?sc))
             \<or> py (wheelMousePosition (hnd ?sc)) \<noteq> py (centerPoint (hnd ?sc))"
    unfolding stc by simp
  note a = committed_center[OF idle run refl tick off refl refl refl refl refl]
  note b = committed_center[OF idle runc refl tickc offc refl refl refl refl refl]
  have "calls (deliver flat_host Frame ?s)
     = [CallStop, CallMoveStart, CallMove \<lparr>px = 90, py = 0\<rparr> (Num 10),
        CallMove \<lparr>px = 88, py = - 3\<rparr> (Num 10)]"
    using a unfolding st
    by (simp add: flat_defs mouseEventToContainerPoint_def nextZoom_Num subtract_def divideBy_def)
  moreover have "calls (deliver flat_host_center Frame ?sc)
     = [CallStop, CallMoveStart, CallMove \<lparr>px = 0, py = 0\<rparr> (Num 10),
        CallMove \<lparr>px = 0, py = 0\<rparr> (Num 10)]"
    using b unfolding stc
    by (simp add: flat_host_center_fields idle_sys_def idle_handler_def notch_up_def
        mouseEventToContainerPoint_def nextZoom_Num subtract_def divideBy_def)
  ultimately show ?thesis by blast
qed

subsection \<open>Events without a delta\<close>

text \<open>
  Claim C8, as amended. When the host provides \<open>L.DomEvent.getWheelDelta\<close>, the
  magnitude of an event is what that function returns. On the handler's own path a
  \<open>deltaY\<close> of zero has magnitude zero. An event of magnitude zero leaves a goal zoom
  that is within the zoom range unchanged. A missing \<open>deltaY\<close> is not defaulted: on
  the handler's own path the magnitude is \<open>NaN\<close>, and so is the goal zoom after the
  event. No branch of the handler raises.
\<close>

theorem zero_delta_event:
  shows "(DomEvent_getWheelDelta H = Some f \<longrightarrow> getWheelDelta H e = f e)
       \<and> (DomEvent_getWheelDelta H = None \<and> deltaY e = Some (Num 0) \<longrightarrow> getWheelDelta H e = Num 0)
       \<and> (getWheelDelta H e = Num 0 \<and> goalZoom (hnd s) = Num g
            \<and> opt_smoothSensitivity H (view s) = Num k
            \<and> getMinZoom H (view s) = Num lo \<and> getMaxZoom H (view s) = Num hi
            \<and> lo \<le> g \<and> g \<le> hi \<longrightarrow>
          goalZoom (hnd (onWheeling H e s)) = Num g)
       \<and> (DomEvent_getWheelDelta H = None \<and> deltaY e = None \<longrightarrow>
          getWheelDelta H e = NaN \<and> goalZoom (hnd (onWheeling H e s)) = NaN)"
proof -
  have a: "getWheelDelta H e = f e" if "DomEvent_getWheelDelta H = Some f"
    using that by (simp add: getWheelDelta_def)
  have b: "getWheelDelta H e = Num 0" if "DomEvent_getWheelDelta H = None" "deltaY e = Some (Num 0)"
    using that by (simp add: getWheelDelta_def Let_def)
  have c: "goalZoom (hnd (onWheeling H e s)) = Num g"
    if "getWheelDelta H e = Num 0" "goalZoom (hnd s) = Num g"
      "opt_smoothSensitivity H (view s) = Num k"
      "getMinZoom H (view s) = Num lo" "getMaxZoom H (view s) = Num hi" "lo \<le> g" "g \<le> hi"
    using onWheeling_in_range[OF that(2,1,3,4,5)] that(6,7) by simp
  have d: "getWheelDelta H e = NaN" if "DomEvent_getWheelDelta H = None" "deltaY e = None"
    using that by (simp add: getWheelDelta_def Let_def)
  have d': "goalZoom (hnd (onWheeling H e s)) = NaN" if "getWheelDelta H e = NaN"
    using that by (simp add: onWheeling_goalZoom Let_def js_gt_def)
  show ?thesis using a b c d d' by blast
qed

theorem zero_delta_event_witness:
  "getWheelDelta flat_host \<lparr>deltaY = Some (Num 0), deltaMode = Some (Num 0), clientX = 500, clientY = 300\<rparr>
     = Num 0
   \<and> goalZoom (hnd (onWheeling flat_host
        \<lparr>deltaY = Some (Num 0), deltaMode = Some (Num 0), clientX = 500, clientY = 300\<rparr>
        (wheelEvents flat_host [notch_up 500 300] (idle_sys 10)))) = Num 10.003
   \<and> getWheelDelta flat_host (no_delta 500 300) = NaN"
proof -
  let ?e = "\<lparr>deltaY = Some (Num 0), deltaMode = Some (Num 0), clientX = 500, clientY = 300\<rparr>"
  let ?s = "wheelEvents flat_host [notch_up 500 300] (idle_sys 10)"
  note t = zero_delta_event[of flat_host undefined ?e ?s "10.003" 1 0 18]
  have e0: "getWheelDelta flat_host ?e = Num 0"
    using t by (simp add: flat_host_fields)
  have g: "goalZoom (hnd ?s) = Num 10.003" "view ?s = view (idle_sys 10)"
    by (simp_all add: run_defs flat_defs)
  have "goalZoom (hnd (onWheeling flat_host ?e ?s)) = Num 10.003"
    using t e0 g by (simp add: flat_host_fields)
  moreover have "getWheelDelta flat_host (no_delta 500 300) = NaN"
    using zero_delta_event[of flat_host undefined "no_delta 500 300" ?s 0 0 0 0]
    by (simp add: flat_host_fields no_delta_def)
  ultimately show ?thesis using e0 by simp
qed

text \<open>The claim as stated, that an event without a delta leaves the goal zoom
  unchanged, fails on the handler's own path: the goal zoom is 10 when the gesture
  starts and \<open>NaN\<close> after the event.\<close>

theorem missing_delta_counterexample:
  "deltaY (no_delta 500 300) = None
   \<and> goalZoom (hnd (onWheelStart flat_host (no_delta 500 300) (idle_sys 10))) = Num 10
   \<and> getWheelDelta flat_host (no_delta 500 300) = NaN
   \<and> goalZoom (hnd (onWheelScroll flat_host (no_delta 500 300) (idle_sys 10))) = NaN"
  by (simp add: run_defs flat_defs)

subsection \<open>Disabling the handler\<close>

lemma updateWheelZoom_listening:
  "updateWheelZoom H (s\<lparr>listening := b\<rparr>) = (updateWheelZoom H s)\<lparr>listening := b\<rparr>"
  by (simp add: updateWheelZoom_def Let_def interfered_def converged_def
      requestAnimationFrame_def cancelAnimationFrame_def split: option.splits)

lemma runFrame_removeHooks: "runFrame H (removeHooks s) = removeHooks (runFrame H s)"
proof (cases "frames s")
  case Nil
  then show ?thesis by (simp add: runFrame_def removeHooks_def)
next
  case (Cons i rest)
  have eq: "s\<lparr>listening := False, frames := rest\<rparr> = (s\<lparr>frames := rest\<rparr>)\<lparr>listening := False\<rparr>"
    by simp
  show ?thesis
    using Cons by (simp add: runFrame_def removeHooks_def eq updateWheelZoom_listening del: sys.simps)
qed

lemma runTimer_removeHooks: "runTimer (removeHooks s) = removeHooks (runTimer s)"
  by (cases "timers s") (simp_all add: runTimer_def removeHooks_def onWheelEnd_def)

text \<open>
  Claim C9, as amended. \<open>L.Handler.disable\<close> of the host calls \<open>removeHooks\<close>, which
  detaches the wheel listener and does nothing else. Doing it twice is the same as
  doing it once, and it neither adds nor cancels a scheduled callback: the pending
  frames and the pending debounce timer are those that were pending before, so none
  is pending after disabling an idle handler. Wheel events are no longer delivered;
  a frame or a timer that was pending still runs as it would have.
\<close>

theorem removeHooks_idempotent:
  "removeHooks (removeHooks s) = removeHooks s
   \<and> \<not> listening (removeHooks s)
   \<and> frames (removeHooks s) = frames s
   \<and> timers (removeHooks s) = timers s
   \<and> hnd (removeHooks s) = hnd s
   \<and> view (removeHooks s) = view s
   \<and> calls (removeHooks s) = calls s
   \<and> deliver H (Wheel e) (removeHooks s) = removeHooks s
   \<and> deliver H Frame (removeHooks s) = removeHooks (deliver H Frame s)
   \<and> deliver H Timeout (removeHooks s) = removeHooks (deliver H Timeout s)"
  by (simp add: runFrame_removeHooks runTimer_removeHooks) (simp add: removeHooks_def)

theorem removeHooks_idempotent_witness:
  "removeHooks (removeHooks (idle_sys 10)) = removeHooks (idle_sys 10)
   \<and> frames (removeHooks (idle_sys 10)) = []
   \<and> timers (removeHooks (idle_sys 10)) = []
   \<and> deliver flat_host (Wheel (notch_up 500 300)) (removeHooks (idle_sys 10)) = removeHooks (idle_sys 10)"
  using removeHooks_idempotent[of "idle_sys 10" flat_host "notch_up 500 300"]
  by (simp add: idle_sys_def)

text \<open>The claim as stated, that no callback remains pending after disable, fails when
  the handler is disabled during a gesture: the requested frame and the debounce
  timer stay pending, and the frame still writes to the map.\<close>

theorem disable_leaves_callbacks_counterexample:
  "frames (removeHooks (wheelEvents flat_host [notch_up 500 300] (idle_sys 10))) = [0]
   \<and> timers (removeHooks (wheelEvents flat_host [notch_up 500 300] (idle_sys 10))) = [0]
   \<and> calls (removeHooks (wheelEvents flat_host [notch_up 500 300] (idle_sys 10))) = [CallStop]
   \<and> calls (deliver flat_host Frame
        (removeHooks (wheelEvents flat_host [notch_up 500 300] (idle_sys 10))))
      = [CallStop, CallMoveStart, CallMove \<lparr>px = 90, py = 0\<rparr> (Num 10)]"
  by (simp add: removeHooks_def run_defs flat_defs)

subsection \<open>Convergence\<close>

lemma nextZoom_stalls:
  assumes grid: "of_int \<lfloor>z * 100\<rfloor> = z * 100" and gap: "0 \<le> g - z" "(g - z) * 30 < 1"
  shows "nextZoom (Num z) (Num g) = Num z"
proof -
  define k where "k = \<lfloor>z * 100\<rfloor>"
  have k: "real_of_int k = z * 100" using grid by (simp only: k_def)
  have e: "(z + (g - z) * 0.3) * 100 = real_of_int k + (g - z) * 30"
    unfolding k by (simp add: field_simps)
  have "\<lfloor>real_of_int k + (g - z) * 30\<rfloor> = k"
  proof (rule floor_unique)
    show "of_int k \<le> real_of_int k + (g - z) * 30" using gap by simp
    show "real_of_int k + (g - z) * 30 < of_int k + 1" using gap by simp
  qed
  then have "real_of_int \<lfloor>(z + (g - z) * 0.3) * 100\<rfloor> = z * 100"
    using k by (simp only: e)
  then have "real_of_int \<lfloor>(z + (g - z) * 0.3) * 100\<rfloor> / 100 = z"
    by simp
  then show ?thesis by (simp only: nextZoom_Num)
qed

lemma runFrame_stalled:
  assumes mv: "\<And>c zz m. getZoom H (move H c zz m) = zz" and rf: "\<And>c. equals H c c"
    and st: "stalled H g z s"
    and grid: "of_int \<lfloor>z * 100\<rfloor> = z * 100" and gap: "0.005 \<le> g - z" "(g - z) * 30 < 1"
  shows "stalled H g z (runFrame H s)"
proof -
  obtain i rest where fr: "frames s = i # rest"
    using st by (cases "frames s") (auto simp add: stalled_def)
  let ?s = "s\<lparr>frames := rest\<rparr>"
  have ni: "\<not> interfered H ?s" using st by (simp add: stalled_def interfered_def js_sne_def)
  have nc: "\<not> converged H ?s" using st gap by (simp add: stalled_def converged_def)
  have nz: "nextZoom (getZoom H (view ?s)) (goalZoom (hnd ?s)) = Num z"
    using st nextZoom_stalls[OF grid _ gap(2)] gap(1) by (simp add: stalled_def)
  show ?thesis
  proof (cases "px (wheelMousePosition (hnd ?s)) \<noteq> px (centerPoint (hnd ?s))
         \<or> py (wheelMousePosition (hnd ?s)) \<noteq> py (centerPoint (hnd ?s))")
    case True
    show ?thesis
      unfolding runFrame_Cons[OF fr] updateWheelZoom_commit[OF ni nc True]
      using st nz by (simp add: stalled_def Let_def requestAnimationFrame_def mv rf)
  next
    case False
    then have c: "px (wheelMousePosition (hnd ?s)) = px (centerPoint (hnd ?s))"
      "py (wheelMousePosition (hnd ?s)) = py (centerPoint (hnd ?s))" by simp_all
    show ?thesis
      unfolding runFrame_Cons[OF fr] updateWheelZoom_centered[OF ni nc c]
      using st by (simp add: stalled_def requestAnimationFrame_def)
  qed
qed

lemma runFrames_stalled:
  assumes mv: "\<And>c zz m. getZoom H (move H c zz m) = zz" and rf: "\<And>c. equals H c c"
    and grid: "of_int \<lfloor>z * 100\<rfloor> = z * 100" and gap: "0.005 \<le> g - z" "(g - z) * 30 < 1"
    and st: "stalled H g z s"
  shows "stalled H g z (runFrames n H s)"
  using st
proof (induction n arbitrary: s)
  case 0
  then show ?case by simp
next
  case (Suc n)
  from Suc.IH[OF runFrame_stalled[OF mv rf Suc.prems grid gap]] show ?case by simp
qed

lemma flat_ten_notches:
  "runTimer (wheelEvents flat_host (replicate 10 (notch_up 500 300)) (idle_sys 10)) =
     \<lparr>hnd = \<lparr>isWheeling = False, wheelMousePosition = \<lparr>px = 500, py = 300\<rparr>,
             centerPoint = \<lparr>px = 400, py = 300\<rparr>, startLatLng = \<lparr>px = 0, py = 0\<rparr>,
             wheelStartLatLng = \<lparr>px = 100, py = 0\<rparr>, startZoom = Num 10,
             moved = False, zooming = True, goalZoom = Num 10.03,
             prevCenter = \<lparr>px = 0, py = 0\<rparr>, prevZoom = Num 10,
             zoomAnimationId = Some 0, timeoutId = Some 9, zoom_field = NaN,
             center_field = \<lparr>px = 0, py = 0\<rparr>\<rparr>,
      view = \<lparr>fv_zoom = Num 10, fv_center = \<lparr>px = 0, py = 0\<rparr>\<rparr>, frames = [0],
      timers = [], nextFrameId = 1, nextTimerId = 10, listening = True,
      calls = [CallStop]\<rparr>"
  by (simp add: numeral_eq_Suc run_defs flat_defs)

text \<open>
  Claim C1 does not hold of the code. The spec's own scenario: the map at zoom 10, ten
  notches up (goal zoom 10.03), the debounce timer expires, and frames run. Each frame
  computes \<open>floor((10 + 0.03 * 0.3) * 100) / 100 = 10\<close>: the map stays at zoom 10,
  \<open>zoomDiff\<close> stays 0.03, the stop condition \<open>|zoomDiff| < 0.005\<close> never holds and a
  frame is pending after every frame.
\<close>

theorem ten_notches_never_converge:
  "\<forall>n. getZoom flat_host
          (view (runFrames n flat_host
             (runTimer (wheelEvents flat_host (replicate 10 (notch_up 500 300)) (idle_sys 10)))))
        = Num 10
      \<and> goalZoom
          (hnd (runFrames n flat_host
             (runTimer (wheelEvents flat_host (replicate 10 (notch_up 500 300)) (idle_sys 10)))))
        = Num 10.03
      \<and> \<not> isWheeling
          (hnd (runFrames n flat_host
             (runTimer (wheelEvents flat_host (replicate 10 (notch_up 500 300)) (idle_sys 10)))))
      \<and> frames (runFrames n flat_host
             (runTimer (wheelEvents flat_host (replicate 10 (notch_up 500 300)) (idle_sys 10))))
        \<noteq> []"
proof
  fix n
  let ?s = "runTimer (wheelEvents flat_host (replicate 10 (notch_up 500 300)) (idle_sys 10))"
  have st: "stalled flat_host 10.03 10 ?s"
    unfolding flat_ten_notches by (simp add: stalled_def flat_host_fields)
  have "stalled flat_host 10.03 10 (runFrames n flat_host ?s)"
    by (rule runFrames_stalled[OF _ _ _ _ _ st]) (simp_all add: flat_host_fields)
  then show "getZoom flat_host (view (runFrames n flat_host ?s)) = Num 10
      \<and> goalZoom (hnd (runFrames n flat_host ?s)) = Num 10.03
      \<and> \<not> isWheeling (hnd (runFrames n flat_host ?s))
      \<and> frames (runFrames n flat_host ?s) \<noteq> []"
    by (simp add: stalled_def)
qed

theorem ten_notches_never_converge_witness:
  "getZoom flat_host
     (view (runFrames 1000 flat_host
        (runTimer (wheelEvents flat_host (replicate 10 (notch_up 500 300)) (idle_sys 10)))))
     = Num 10
   \<and> frames (runFrames 1000 flat_host
        (runTimer (wheelEvents flat_host (replicate 10 (notch_up 500 300)) (idle_sys 10))))
     \<noteq> []"
  using ten_notches_never_converge by blast

text \<open>Downwards the first frame rounds past the goal: one notch down from zoom 10
  (goal 9.997) commits 9.99 while the gesture is still under way, \<open>|zoomDiff|\<close> grows
  from 0.003 to 0.007, and after the gesture has ended the map stays at 9.99.\<close>

lemma one_notch_down_overshoots:
  "stalled flat_host 9.997 9.99
     (runFrames n flat_host
        (runTimer (runFrame flat_host (wheelEvents flat_host [notch_down 500 300] (idle_sys 10)))))"
proof -
  have st: "stalled flat_host 9.997 9.99
     (runTimer (runFrame flat_host (wheelEvents flat_host [notch_down 500 300] (idle_sys 10))))"
    by (simp add: stalled_def run_defs flat_defs)
  show ?thesis
    by (rule runFrames_stalled[OF _ _ _ _ _ st]) (simp_all add: flat_host_fields)
qed

end
